theory Spec2Isabelle
  imports
    Main
    "HOL-Library.Word"
    "HOL-Library.Finite_Map"
    "HOL-Library.Sublist"
    "HOL-Library.Multiset"
begin

section \<open>The description of a state machine (asmd.go, lines 13--45)\<close>

text \<open>
  A Go map is a finite table of unique keys, or \<open>nil\<close>.  Reading a nil map behaves like
  reading an empty one (\<open>len\<close> is 0, \<open>range\<close> runs no iteration), but assigning into a nil
  map panics, so nil is kept apart from the empty table: \<open>None\<close> is the nil map.
\<close>

type_synonym 'v gomap = "(string, 'v) fmap option"

record Variable =
  BitWidth :: "64 word"
  Type :: string
  DefaultValue :: string

record FunctionalUnit =
  Inputs :: "Variable gomap"
  Outputs :: "Variable gomap"
  Registers :: "Variable gomap"

text \<open>\<open>AddAsyncReset\<close> is a \<open>*bool\<close>: \<open>None\<close> is the nil pointer (the option was not given).\<close>

record Options =
  ModuleName :: string
  trimmedModuleName :: string
  ClockType :: string
  AddAsyncReset :: "bool option"
  FirstState :: string
  Indent :: string
  Author :: string

record StateMachine =
  Options :: Options
  Inputs :: "Variable gomap"
  Outputs :: "Variable gomap"
  Parameters :: "Variable gomap"
  Registers :: "Variable gomap"
  FunctionalUnits :: "FunctionalUnit gomap"

text \<open>
  Error values.  \<open>errors_New\<close> is Go's \<open>errors.New\<close>; \<open>PathError\<close> stands for the errors of
  package \<open>os\<close> (\<open>os.Create\<close>, \<open>WriteString\<close>); \<open>runtime_Error\<close> is a panic raised by the Go
  runtime itself.
\<close>

datatype error = errors_New string | PathError string | runtime_Error string

definition len :: "'v gomap \<Rightarrow> nat" where
  "len m = (case m of None \<Rightarrow> 0 | Some t \<Rightarrow> fcard (fmdom t))"

definition lookup :: "'v gomap \<Rightarrow> string \<Rightarrow> 'v option" where
  "lookup m k = (case m of None \<Rightarrow> None | Some t \<Rightarrow> fmlookup t k)"

section \<open>Library functions the code calls\<close>

text \<open>
  \<open>strings.ToLower\<close>.  Go lower-cases by Unicode rune; the model lower-cases the ASCII
  letters and leaves every other byte alone.  The code only compares the result with the
  ASCII words \<open>posedge\<close> and \<open>negedge\<close>: the two non-ASCII runes whose lower case is ASCII
  (U+212A to \<open>k\<close>, U+0130 to \<open>i\<close>) give letters that occur in neither word, and every other
  non-ASCII rune stays non-ASCII, so both functions agree on whether the result is one of
  these words.
\<close>

text \<open>
  A byte from \<open>A\<close> (65) to \<open>Z\<close> (90) has bit 5 clear, so adding \<open>'a' - 'A' = 32\<close> sets
  that bit and changes no other.
\<close>

definition lower_byte :: "char \<Rightarrow> char" where
  "lower_byte c =
     (let n = (of_char c :: nat) in
      if 65 \<le> n \<and> n \<le> 90
      then Char (digit0 c) (digit1 c) (digit2 c) (digit3 c) (digit4 c) True (digit6 c) (digit7 c)
      else c)"

definition ToLower :: "string \<Rightarrow> string" where
  "ToLower s = map lower_byte s"

text \<open>
  \<open>strings.NewReplacer(" ", "", "\t", "", "-", "").Replace\<close>: every old string is one
  byte and every new string is empty, so the replacer deletes these three bytes.
\<close>

definition Replace :: "string \<Rightarrow> string" where
  "Replace s =
     concat (map (\<lambda>c. if c = CHR '' '' then [] else if c = CHR 0x09 then []
                       else if c = CHR ''-'' then [] else [c]) s)"

section \<open>Validation (lines 71--95)\<close>

definition Validate :: "StateMachine \<Rightarrow> error option" where
  "Validate m =
     (if ModuleName (Options m) = [] then
        Some (errors_New ''No module name specified (m.Options.Modulename).'')
      else
        let clockType = ToLower (ClockType (Options m)) in
        if \<not> (clockType = ''posedge'' \<or> clockType = ''negedge'') then
          Some (errors_New (''m.Options.ClockType must be 'negedge' or 'posedge', not ''
                            @ ClockType (Options m)))
        else if FirstState (Options m) = [] then
          Some (errors_New ''m.Options.FirstState not specified.'')
        else if len (Inputs m) = 0 then
          Some (errors_New ''No inputs specified.'')
        else None)"

section \<open>Defaults (lines 97--120)\<close>

text \<open>
  The Go method updates the model in place; the model returns the updated value.  The
  assignment \<open>m.Inputs["clk"] = ...\<close> panics when \<open>m.Inputs\<close> is nil: that is the \<open>Inl\<close>
  result.  After line 108 the pointer \<open>AddAsyncReset\<close> is never nil, so line 117 reads it
  safely.
\<close>

definition FixUpWithDefaults :: "StateMachine \<Rightarrow> error + StateMachine" where
  "FixUpWithDefaults m =
     (let o1 = (Options m)\<lparr>trimmedModuleName := Replace (ModuleName (Options m))\<rparr>;
          o2 = (if AddAsyncReset o1 = None then o1\<lparr>AddAsyncReset := Some True\<rparr> else o1);
          o3 = (if Indent o2 = [] then o2\<lparr>Indent := ''    ''\<rparr> else o2)
      in case Inputs m of
           None \<Rightarrow> Inl (runtime_Error ''assignment to entry in nil map'')
         | Some t \<Rightarrow>
             let t1 = fmupd ''clk'' \<lparr>BitWidth = 1, Type = [], DefaultValue = []\<rparr> t;
                 t2 = (if AddAsyncReset o3 = Some True
                       then fmupd ''rst'' \<lparr>BitWidth = 1, Type = [], DefaultValue = []\<rparr> t1
                       else t1)
             in Inr (m\<lparr>Options := o3, Inputs := Some t2\<rparr>))"

section \<open>The output file and \<open>write\<close> (lines 122--133)\<close>

text \<open>
  The file is what has reached it so far, and a script of the results of the next calls
  of \<open>WriteString\<close>, in order; once the script is used up every write is accepted.
  \<open>Failed n e\<close> is a call that returns \<open>n\<close> bytes and the error \<open>e\<close>; \<open>Short n\<close> is a
  call that returns \<open>n\<close> bytes and no error.  An \<open>*os.File\<close> never answers \<open>Short\<close> with
  fewer bytes than asked (it reports a short write as an error); the result is there for
  the test on line 129, which \<open>write\<close> makes all the same.
\<close>

datatype write_result = Written | Failed nat error | Short nat

record File =
  content :: string
  script :: "write_result list"

definition WriteString :: "File \<Rightarrow> string \<Rightarrow> nat \<times> error option \<times> File" where
  "WriteString f s =
     (case script f of
        [] \<Rightarrow> (length s, None, f\<lparr>content := content f @ s\<rparr>)
      | Written # rest \<Rightarrow> (length s, None, f\<lparr>content := content f @ s, script := rest\<rparr>)
      | Failed n e # rest \<Rightarrow>
          (min n (length s), Some e, f\<lparr>content := content f @ take n s, script := rest\<rparr>)
      | Short n # rest \<Rightarrow>
          (min n (length s), None, f\<lparr>content := content f @ take n s, script := rest\<rparr>))"

text \<open>
  \<open>write\<close> (here \<open>write_strs\<close>) panics at the first string the file does not take whole.  \<open>Inl (e, f)\<close> is the
  panic with value \<open>e\<close>, the file left as \<open>f\<close>.
\<close>

fun write_strs :: "File \<Rightarrow> string list \<Rightarrow> (error \<times> File) + File" where
  "write_strs f [] = Inr f"
| "write_strs f (s # ss) =
     (case WriteString f s of
        (n, err, f') \<Rightarrow>
          (case err of
             Some e \<Rightarrow> Inl (e, f')
           | None \<Rightarrow>
               if n \<noteq> length s
               then Inl (errors_New ''Unable to write full string to file'', f')
               else write_strs f' ss))"

section \<open>Rendering (lines 135--282)\<close>

text \<open>
  \<open>indent\<close> also stores the default back into \<open>m.Options.Indent\<close> when that is empty.
  \<open>Indent\<close> is read nowhere else while rendering, and \<open>indent\<close> applies the same default at
  every call, so only the returned string is modelled.
\<close>

definition indent :: "StateMachine \<Rightarrow> nat \<Rightarrow> string" where
  "indent m n =
     concat (replicate n (if Indent (Options m) = [] then ''    '' else Indent (Options m)))"

text \<open>\<open>strconv.FormatUint(x, 10)\<close>: the decimal digits of \<open>x\<close>, no leading zero.\<close>

function decimal :: "nat \<Rightarrow> string" where
  "decimal n =
     (if n < 10 then [''0123456789'' ! n]
      else decimal (n div 10) @ [''0123456789'' ! (n mod 10)])"
  by pat_completeness auto
termination
  by (relation "measure id") auto

definition FormatUint :: "64 word \<Rightarrow> string" where
  "FormatUint x = decimal (unat x)"

text \<open>
  What \<open>VHDL\<close> depends on besides the model: whether \<open>os.Create\<close> fails, how the created
  file answers each write, the formatted date, and the order in which each \<open>range\<close> over
  a map yields its entries.  Go leaves that order unspecified: \<open>ranges m kvs\<close> says that
  \<open>kvs\<close> is one of the sequences a \<open>range\<close> over \<open>m\<close> can yield, every entry once.
\<close>

record Env =
  create_error :: "error option"
  write_script :: "write_result list"
  today :: string
  range_Parameters :: "(string \<times> Variable) list"
  range_Inputs :: "(string \<times> Variable) list"
  range_Outputs :: "(string \<times> Variable) list"

definition ranges :: "'v gomap \<Rightarrow> (string \<times> 'v) list \<Rightarrow> bool" where
  "ranges m kvs =
     (case m of None \<Rightarrow> kvs = [] | Some t \<Rightarrow> distinct (map fst kvs) \<and> fmap_of_list kvs = t)"

definition ranges_of :: "StateMachine \<Rightarrow> Env \<Rightarrow> bool" where
  "ranges_of m env =
     (ranges (Parameters m) (range_Parameters env) \<and>
      ranges (Inputs m) (range_Inputs env) \<and>
      ranges (Outputs m) (range_Outputs env))"

text \<open>
  No string that \<open>VHDL\<close> writes depends on the result of an earlier write.  So each part of
  the function is modelled by the strings it hands to \<open>WriteString\<close>, in order, one list
  segment for each call \<open>write(file, ...)\<close> of the source; \<open>VHDL\<close> below passes them to the
  file, where the first failure panics.
\<close>

text \<open>Lines 155--174: comments, library and use statements, entity start.\<close>

definition preamble :: "StateMachine \<Rightarrow> string \<Rightarrow> string list" where
  "preamble m date =
     [''\<newline>''] @
     [''--------------------------------------------------------------------------------\<newline>''] @
     [''-- Module Name: '', ModuleName (Options m), ''\<newline>''] @
     [''-- Author:      '', Author (Options m), ''\<newline>''] @
     [''-- Date:        '', date, ''\<newline>''] @
     [''--\<newline>''] @
     [''--------------------------------------------------------------------------------\<newline>''] @
     [''\<newline>''] @
     [''\<newline>''] @
     [''library IEEE;\<newline>''] @
     [''use IEEE.STD_LOGIC_1164.ALL;\<newline>''] @
     [''use IEEE.NUMERIC_STD.ALL;\<newline>''] @
     [''\<newline>''] @
     [''entity '', trimmedModuleName (Options m), '' is\<newline>'']"

text \<open>
  Lines 180--190: the loop over \<open>m.Parameters\<close>.  \<open>generic_entry\<close> is lines 188--189, what
  the body writes after the indentation and the separator.
\<close>

definition generic_entry :: "string \<Rightarrow> Variable \<Rightarrow> string list" where
  "generic_entry name properties =
     [name, '': '', Type properties, '' := '', DefaultValue properties] @
     [''\<newline>'']"

fun generics_loop :: "StateMachine \<Rightarrow> bool \<Rightarrow> (string \<times> Variable) list \<Rightarrow> string list" where
  "generics_loop m isFirst [] = []"
| "generics_loop m isFirst ((name, properties) # rest) =
     [indent m 2] @
     [if isFirst then ''  '' else ''; ''] @
     generic_entry name properties @
     generics_loop m False rest"

text \<open>Lines 177--192.\<close>

definition generics :: "StateMachine \<Rightarrow> (string \<times> Variable) list \<Rightarrow> string list" where
  "generics m kvs =
     (if len (Parameters m) > 0 then
        [indent m 1, ''generic (\<newline>''] @
        generics_loop m True kvs @
        [indent m 1, '');\<newline>'']
      else [])"

text \<open>
  Lines 200--213 and 218--231: the loops over \<open>m.Inputs\<close> and \<open>m.Outputs\<close>.  Each returns
  the strings written and the value of \<open>isFirst\<close> at its end.  \<open>input_entry\<close> is lines
  208--212 and \<open>output_entry\<close> lines 226--230, what a body writes after the indentation
  and the separator.
\<close>

definition input_entry :: "string \<Rightarrow> Variable \<Rightarrow> string list" where
  "input_entry name properties =
     [name, '' : in std_logic''] @
     (if BitWidth properties > 1
      then [''_vector ('', FormatUint (BitWidth properties - 1), '' downto 0)'']
      else []) @
     [''\<newline>'']"

definition output_entry :: "string \<Rightarrow> Variable \<Rightarrow> string list" where
  "output_entry name properties =
     [name, '' : out std_logic''] @
     (if BitWidth properties > 1
      then [''_vector ('', FormatUint (BitWidth properties - 1), '' downto 0)'']
      else []) @
     [''\<newline>'']"

fun inputs_loop ::
  "StateMachine \<Rightarrow> bool \<Rightarrow> (string \<times> Variable) list \<Rightarrow> string list \<times> bool" where
  "inputs_loop m isFirst [] = ([], isFirst)"
| "inputs_loop m isFirst ((name, properties) # rest) =
     (let ws = [indent m 2] @
               [if isFirst then ''  '' else ''; ''] @
               input_entry name properties;
          (ws', isFirst') = inputs_loop m False rest
      in (ws @ ws', isFirst'))"

fun outputs_loop ::
  "StateMachine \<Rightarrow> bool \<Rightarrow> (string \<times> Variable) list \<Rightarrow> string list \<times> bool" where
  "outputs_loop m isFirst [] = ([], isFirst)"
| "outputs_loop m isFirst ((name, properties) # rest) =
     (let ws = [indent m 2] @
               [if isFirst then ''  '' else ''; ''] @
               output_entry name properties;
          (ws', isFirst') = outputs_loop m False rest
      in (ws @ ws', isFirst'))"

text \<open>Lines 194--234.\<close>

definition ports ::
  "StateMachine \<Rightarrow> (string \<times> Variable) list \<Rightarrow> (string \<times> Variable) list \<Rightarrow> string list" where
  "ports m ikvs okvs =
     (if len (Inputs m) > 0 \<or> len (Outputs m) > 0 then
        (let (iws, isFirst) = inputs_loop m True ikvs;
             (ows, isFirst') = outputs_loop m isFirst okvs
         in [indent m 1, ''port (\<newline>''] @ iws @ ows @ [indent m 1, '');\<newline>''])
      else [])"

text \<open>Lines 237--257: entity end, architecture start, FSM declarations, \<open>begin\<close>.\<close>

definition declarations :: "StateMachine \<Rightarrow> string list" where
  "declarations m =
     [''end '', trimmedModuleName (Options m), '';\<newline>''] @
     [''\<newline>''] @
     [''architecture Behavioral of '', trimmedModuleName (Options m), '' is\<newline>''] @
     [indent m 1, ''-- FSM declarations\<newline>''] @
     [indent m 1, ''type state is (''] @
     ['');\<newline>''] @
     [indent m 1, ''signal state_reg, state_next : state := '', FirstState (Options m),
      '';\<newline>''] @
     [''begin\<newline>'']"

text \<open>
  Lines 260--281: the register process and the end of the architecture.  The second
  component is the value returned: \<open>None\<close> is \<open>nil\<close>.  With a clock type that is neither of
  the two words the function returns after line 264, with nothing more written.
\<close>

definition register_process :: "StateMachine \<Rightarrow> string list \<times> error option" where
  "register_process m =
     (let ws = [indent m 1, ''-- FSM state register\<newline>''] @
               [indent m 1, ''process(clk, rst)\<newline>''] @
               [indent m 1, ''begin\<newline>''] @
               [indent m 2, ''if (rst='1') then\<newline>''] @
               [indent m 3, ''state_reg <= '', FirstState (Options m), '';\<newline>''];
          rest = [indent m 3, ''state_reg <= state_next;\<newline>''] @
                 [indent m 2, ''end if;\<newline>''] @
                 [indent m 1, ''end process;\<newline>''] @
                 [''end Behavioral;\<newline>''] @
                 [''\<newline>'']
      in if ClockType (Options m) = ''posedge'' then
           (ws @ [indent m 2, ''elsif (clk'event and clk='1') then\<newline>''] @ rest, None)
         else if ClockType (Options m) = ''negedge'' then
           (ws @ [indent m 2, ''elsif (clk'event and clk='0') then\<newline>''] @ rest, None)
         else
           (ws, Some (errors_New (''Unrecognized clock type: '' @ ClockType (Options m)))))"

text \<open>
  The whole of \<open>VHDL\<close>.  \<open>os.Create\<close> gives an empty file or an error, which is returned.
  A panic of \<open>write\<close> unwinds through \<open>VHDL\<close>, which has no \<open>recover\<close>: the caller gets no
  return value.  The deferred \<open>file.Close()\<close> changes nothing that is modelled.
\<close>

datatype outcome =
    Returned "error option" "File option"
  | Panicked error File

definition VHDL_writes :: "StateMachine \<Rightarrow> Env \<Rightarrow> string list \<times> error option" where
  "VHDL_writes m env =
     (let (ws, err) = register_process m
      in (preamble m (today env) @
          generics m (range_Parameters env) @
          ports m (range_Inputs env) (range_Outputs env) @
          declarations m @
          ws, err))"

definition VHDL :: "StateMachine \<Rightarrow> Env \<Rightarrow> outcome" where
  "VHDL m env =
     (case create_error env of
        Some err \<Rightarrow> Returned (Some err) None
      | None \<Rightarrow>
          (let file = \<lparr>content = [], script = write_script env\<rparr>;
               (ws, err) = VHDL_writes m env
           in case write_strs file ws of
                Inl (e, file') \<Rightarrow> Panicked e file'
              | Inr file' \<Rightarrow> Returned err (Some file')))"

section \<open>Descriptions and runs used as examples\<close>

text \<open>
  \<open>counter\<close> is the description \<open>{ModuleName: "Counter", ClockType: "posedge",
  FirstState: "S0", Inputs: {"en": {BitWidth: 1}}}\<close> as decoded from JSON: absent maps are
  nil, absent strings empty, the absent \<open>AddAsyncReset\<close> a nil pointer.
\<close>

definition wire :: Variable where
  "wire = \<lparr>BitWidth = 1, Type = [], DefaultValue = []\<rparr>"

definition counter :: StateMachine where
  "counter =
     \<lparr>Options = \<lparr>ModuleName = ''Counter'', trimmedModuleName = [], ClockType = ''posedge'',
                 AddAsyncReset = None, FirstState = ''S0'', Indent = [], Author = []\<rparr>,
      Inputs = Some (fmupd ''en'' wire fmempty),
      Outputs = None, Parameters = None, Registers = None, FunctionalUnits = None\<rparr>"

definition counter_fixed :: StateMachine where
  "counter_fixed =
     \<lparr>Options = \<lparr>ModuleName = ''Counter'', trimmedModuleName = ''Counter'',
                 ClockType = ''posedge'', AddAsyncReset = Some True, FirstState = ''S0'',
                 Indent = ''    '', Author = []\<rparr>,
      Inputs = Some (fmupd ''rst'' wire (fmupd ''clk'' wire (fmupd ''en'' wire fmempty))),
      Outputs = None, Parameters = None, Registers = None, FunctionalUnits = None\<rparr>"

text \<open>The same description with \<open>AddAsyncReset: false\<close>.\<close>

definition counter_no_reset :: StateMachine where
  "counter_no_reset = counter\<lparr>Options := (Options counter)\<lparr>AddAsyncReset := Some False\<rparr>\<rparr>"

definition counter_no_reset_fixed :: StateMachine where
  "counter_no_reset_fixed =
     \<lparr>Options = \<lparr>ModuleName = ''Counter'', trimmedModuleName = ''Counter'',
                 ClockType = ''posedge'', AddAsyncReset = Some False, FirstState = ''S0'',
                 Indent = ''    '', Author = []\<rparr>,
      Inputs = Some (fmupd ''clk'' wire (fmupd ''en'' wire fmempty)),
      Outputs = None, Parameters = None, Registers = None, FunctionalUnits = None\<rparr>"

text \<open>The same description with \<open>ClockType: "PosEdge"\<close>.\<close>

definition counter_PosEdge :: StateMachine where
  "counter_PosEdge = counter\<lparr>Options := (Options counter)\<lparr>ClockType := ''PosEdge''\<rparr>\<rparr>"

definition counter_PosEdge_fixed :: StateMachine where
  "counter_PosEdge_fixed =
     counter_fixed\<lparr>Options := (Options counter_fixed)\<lparr>ClockType := ''PosEdge''\<rparr>\<rparr>"

text \<open>
  The normalized counter with \<open>Parameters: {"WIDTH": {BitWidth: 8, Type: "std_logic",
  DefaultValue: "8"}}\<close> and \<open>Outputs: {"q": {BitWidth: 8}}\<close>.
\<close>

definition width8 :: Variable where
  "width8 = \<lparr>BitWidth = 8, Type = ''std_logic'', DefaultValue = ''8''\<rparr>"

definition bus8 :: Variable where
  "bus8 = \<lparr>BitWidth = 8, Type = [], DefaultValue = []\<rparr>"

definition counter_generic :: StateMachine where
  "counter_generic =
     counter_fixed\<lparr>Parameters := Some (fmupd ''WIDTH'' width8 fmempty),
                   Outputs := Some (fmupd ''q'' bus8 fmempty)\<rparr>"

text \<open>
  The counter with \<open>clk\<close> and \<open>rst\<close> declared by the description itself, 16 wide, of type
  \<open>integer\<close>, with default \<open>0\<close>.
\<close>

definition wide :: Variable where
  "wide = \<lparr>BitWidth = 16, Type = ''integer'', DefaultValue = ''0''\<rparr>"

definition counter_clash :: StateMachine where
  "counter_clash = counter\<lparr>Inputs := Some (fmupd ''rst'' wide (fmupd ''clk'' wide fmempty))\<rparr>"

text \<open>
  Runs: the file is created, every write is accepted, and the maps are ranged over in
  the order given.
\<close>

definition run :: "(string \<times> Variable) list \<Rightarrow> (string \<times> Variable) list \<Rightarrow>
    (string \<times> Variable) list \<Rightarrow> Env" where
  "run pkvs ikvs okvs =
     \<lparr>create_error = None, write_script = [], today = ''1 Nov 2026'',
      range_Parameters = pkvs, range_Inputs = ikvs, range_Outputs = okvs\<rparr>"

section \<open>Properties of the parts\<close>

lemma len_eq_0_iff: "len m = 0 \<longleftrightarrow> (\<forall>k. lookup m k = None)"
proof (cases m)
  case None
  then show ?thesis by (simp add: len_def lookup_def)
next
  case (Some t)
  have "fmdom t = {||} \<longleftrightarrow> (\<forall>k. fmlookup t k = None)"
    by (metis fmdom_notD fmdom_notI fempty_iff fset_eqI)
  with Some show ?thesis by (simp add: len_def lookup_def)
qed

lemma Validate_Inputs_not_nil: "Validate m = None \<Longrightarrow> \<exists>t. Inputs m = Some t"
  by (cases "Inputs m") (simp_all add: Validate_def Let_def len_def split: if_splits)

lemma rst_clk_again:
  "fmupd ''rst'' v (fmupd ''clk'' v (fmupd ''rst'' v (fmupd ''clk'' v t))) =
   fmupd ''rst'' v (fmupd ''clk'' v t)"
  by (rule fmap_ext) simp

lemma unat_pred: "1 < (w :: 64 word) \<Longrightarrow> unat (w - 1) = unat w - 1"
  by (metis unat_minus_one word_gt_0 word_less_1 less_trans zero_less_one)

lemma indent_unfold:
  "indent m (Suc 0) = (if Indent (Options m) = [] then ''    '' else Indent (Options m))"
  "indent m 2 = indent m (Suc 0) @ indent m (Suc 0)"
  "indent m 3 = indent m (Suc 0) @ indent m (Suc 0) @ indent m (Suc 0)"
  by (simp_all add: indent_def eval_nat_numeral)

text \<open>A file that accepts every write ends with all the strings appended.\<close>

lemma write_strs_accepting:
  "script f = [] \<Longrightarrow> write_strs f ss = Inr (f\<lparr>content := content f @ concat ss\<rparr>)"
  by (induction ss arbitrary: f) (simp_all add: WriteString_def)

lemma VHDL_accepting:
  assumes "create_error env = None" and "write_script env = []"
  shows "VHDL m env =
           Returned (snd (VHDL_writes m env))
                    (Some \<lparr>content = concat (fst (VHDL_writes m env)), script = []\<rparr>)"
  using assms by (simp add: VHDL_def write_strs_accepting split: prod.split)

text \<open>The loops: the flag at the end, and the strings written for an entry anywhere.\<close>

lemma inputs_loop_snd: "snd (inputs_loop m b kvs) = (b \<and> kvs = [])"
  by (induction m b kvs rule: inputs_loop.induct) (simp_all add: case_prod_beta)

lemma inputs_loop_fst:
  "fst (inputs_loop m b (pre @ (name, v) # post)) =
     fst (inputs_loop m b pre) @
     [indent m 2, if b \<and> pre = [] then ''  '' else ''; ''] @ input_entry name v @
     fst (inputs_loop m False post)"
  by (induction m b pre rule: inputs_loop.induct) (simp_all add: case_prod_beta)

lemma outputs_loop_snd: "snd (outputs_loop m b kvs) = (b \<and> kvs = [])"
  by (induction m b kvs rule: outputs_loop.induct) (simp_all add: case_prod_beta)

lemma outputs_loop_fst:
  "fst (outputs_loop m b (pre @ (name, v) # post)) =
     fst (outputs_loop m b pre) @
     [indent m 2, if b \<and> pre = [] then ''  '' else ''; ''] @ output_entry name v @
     fst (outputs_loop m False post)"
  by (induction m b pre rule: outputs_loop.induct) (simp_all add: case_prod_beta)

lemma generics_loop_entry:
  "generics_loop m b (pre @ (name, v) # post) =
     generics_loop m b pre @
     [indent m 2, if b \<and> pre = [] then ''  '' else ''; ''] @ generic_entry name v @
     generics_loop m False post"
  by (induction m b pre rule: generics_loop.induct) simp_all

text \<open>
  The loops write their entries in the order of the sequence ranged over, each after the
  indentation and the leading blanks (first entry of the list) or the separator.  The
  outputs continue the list of the inputs: only when there is no input does the first
  output get the leading blanks.
\<close>

lemma layout_append:
  "concat (map L (zip (b # replicate (length (xs @ ys)) False) (xs @ ys))) =
   concat (map L (zip (b # replicate (length xs) False) xs)) @
   concat (map L (zip ((b \<and> xs = []) # replicate (length ys) False) ys))"
  by (induction xs arbitrary: b) simp_all

lemma generics_loop_layout:
  "generics_loop m b kvs =
     concat (map (\<lambda>(first, e). [indent m 2, if first then ''  '' else ''; ''] @ e)
                 (zip (b # replicate (length kvs) False)
                      (map (\<lambda>(name, v). generic_entry name v) kvs)))"
  by (induction m b kvs rule: generics_loop.induct) simp_all

lemma inputs_loop_layout:
  "fst (inputs_loop m b kvs) =
     concat (map (\<lambda>(first, e). [indent m 2, if first then ''  '' else ''; ''] @ e)
                 (zip (b # replicate (length kvs) False)
                      (map (\<lambda>(name, v). input_entry name v) kvs)))"
  by (induction m b kvs rule: inputs_loop.induct) (simp_all add: case_prod_beta)

lemma outputs_loop_layout:
  "fst (outputs_loop m b kvs) =
     concat (map (\<lambda>(first, e). [indent m 2, if first then ''  '' else ''; ''] @ e)
                 (zip (b # replicate (length kvs) False)
                      (map (\<lambda>(name, v). output_entry name v) kvs)))"
  by (induction m b kvs rule: outputs_loop.induct) (simp_all add: case_prod_beta)

lemma ports_loops_layout:
  "fst (inputs_loop m True ikvs) @ fst (outputs_loop m (snd (inputs_loop m True ikvs)) okvs) =
     concat (map (\<lambda>(first, e). [indent m 2, if first then ''  '' else ''; ''] @ e)
                 (zip (True # replicate (length ikvs + length okvs) False)
                      (map (\<lambda>(name, v). input_entry name v) ikvs @
                       map (\<lambda>(name, v). output_entry name v) okvs)))"
  using layout_append [of "\<lambda>(first, e). [indent m 2, if first then ''  '' else ''; ''] @ e"
      True "map (\<lambda>(name, v). input_entry name v) ikvs"
      "map (\<lambda>(name, v). output_entry name v) okvs"]
  by (simp add: inputs_loop_layout outputs_loop_layout inputs_loop_snd)

text \<open>Two sequences that a \<open>range\<close> over one map can yield hold the same entries.\<close>

lemma ranges_mset:
  assumes "ranges m kvs1" and "ranges m kvs2"
  shows "mset kvs1 = mset kvs2"
proof (cases m)
  case None
  with assms show ?thesis by (simp add: ranges_def)
next
  case (Some t)
  with assms have d1: "distinct (map fst kvs1)" and d2: "distinct (map fst kvs2)"
    and eq: "fmap_of_list kvs1 = fmap_of_list kvs2"
    by (simp_all add: ranges_def)
  from eq have "map_of kvs1 = map_of kvs2"
    by (metis fmlookup_of_list)
  with d1 d2 have "set kvs1 = set kvs2"
    by (simp add: map_of_inject_set)
  moreover from d1 d2 have "distinct kvs1" "distinct kvs2"
    by (simp_all add: distinct_map)
  ultimately show ?thesis
    by (simp add: set_eq_iff_mset_eq_distinct)
qed

text \<open>
  A sequence that a \<open>range\<close> over a map can yield holds each key once, holds exactly the
  entries of the map, and is as long as \<open>len\<close> of the map.
\<close>

lemma ranges_entries:
  assumes "ranges m kvs"
  shows "distinct (map fst kvs)" and "set kvs = {(k, v). lookup m k = Some v}"
    and "length kvs = len m"
proof -
  show "distinct (map fst kvs)"
    using assms by (cases m) (simp_all add: ranges_def)
  show "set kvs = {(k, v). lookup m k = Some v}"
    using assms by (cases m) (auto simp add: ranges_def lookup_def fmlookup_of_list)
  show "length kvs = len m"
  proof (cases m)
    case None
    with assms show ?thesis by (simp add: ranges_def len_def)
  next
    case (Some t)
    with assms have d: "distinct (map fst kvs)" and t: "t = fmap_of_list kvs"
      by (simp_all add: ranges_def)
    have "fcard (fmdom (fmap_of_list kvs)) = card (set (map fst kvs))"
      by (simp add: fcard.rep_eq fset_of_list.rep_eq)
    also have "\<dots> = length kvs"
      using d by (simp add: distinct_card del: set_map)
    finally show ?thesis using Some t by (simp add: len_def)
  qed
qed


lemma ranges_empty: "ranges m kvs \<Longrightarrow> len m = 0 \<longleftrightarrow> kvs = []"
  using ranges_entries(3) [of m kvs] by auto

lemmas render_defs =
  VHDL_writes_def register_process_def declarations_def ports_def generics_def preamble_def
  indent_unfold input_entry_def output_entry_def generic_entry_def len_def FormatUint_def
  fcard_finsert_if

section \<open>Validation\<close>

text \<open>
  Claim C8.  \<open>Validate\<close> checks, in this order, that the module name is not empty, that
  the lower-cased clock type is \<open>posedge\<close> or \<open>negedge\<close>, that the first state is not empty
  and that there is at least one input; it returns the error of the first check that
  fails and nothing of the later ones, the four errors are different from each other,
  and it returns \<open>nil\<close> exactly when all four checks pass.
\<close>

theorem Validate_first_violation:
  "(ModuleName (Options m) = [] \<longrightarrow>
      Validate m = Some (errors_New ''No module name specified (m.Options.Modulename).'')) \<and>
   (ModuleName (Options m) \<noteq> [] \<and>
    ToLower (ClockType (Options m)) \<notin> {''posedge'', ''negedge''} \<longrightarrow>
      Validate m = Some (errors_New (''m.Options.ClockType must be 'negedge' or 'posedge', not ''
                                     @ ClockType (Options m)))) \<and>
   (ModuleName (Options m) \<noteq> [] \<and>
    ToLower (ClockType (Options m)) \<in> {''posedge'', ''negedge''} \<and>
    FirstState (Options m) = [] \<longrightarrow>
      Validate m = Some (errors_New ''m.Options.FirstState not specified.'')) \<and>
   (ModuleName (Options m) \<noteq> [] \<and>
    ToLower (ClockType (Options m)) \<in> {''posedge'', ''negedge''} \<and>
    FirstState (Options m) \<noteq> [] \<and> len (Inputs m) = 0 \<longrightarrow>
      Validate m = Some (errors_New ''No inputs specified.'')) \<and>
   (Validate m = None \<longleftrightarrow>
      ModuleName (Options m) \<noteq> [] \<and>
      ToLower (ClockType (Options m)) \<in> {''posedge'', ''negedge''} \<and>
      FirstState (Options m) \<noteq> [] \<and> len (Inputs m) \<noteq> 0) \<and>
   distinct [errors_New ''No module name specified (m.Options.Modulename).'',
             errors_New (''m.Options.ClockType must be 'negedge' or 'posedge', not ''
                         @ ClockType (Options m)),
             errors_New ''m.Options.FirstState not specified.'',
             errors_New ''No inputs specified.'']"
  by (simp add: Validate_def Let_def)

theorem Validate_first_violation_witness:
  "Validate (counter\<lparr>Options := (Options counter)\<lparr>ModuleName := [], ClockType := ''x'',
                                                FirstState := []\<rparr>,
                      Inputs := None\<rparr>) =
     Some (errors_New ''No module name specified (m.Options.Modulename).'') \<and>
   Validate (counter\<lparr>Options := (Options counter)\<lparr>ClockType := ''Rising'',
                                                FirstState := []\<rparr>,
                      Inputs := None\<rparr>) =
     Some (errors_New ''m.Options.ClockType must be 'negedge' or 'posedge', not Rising'') \<and>
   Validate (counter\<lparr>Options := (Options counter)\<lparr>ClockType := ''NegEdge'',
                                                FirstState := []\<rparr>,
                      Inputs := None\<rparr>) =
     Some (errors_New ''m.Options.FirstState not specified.'') \<and>
   Validate (counter\<lparr>Inputs := Some fmempty\<rparr>) = Some (errors_New ''No inputs specified.'') \<and>
   Validate counter = None"
  using
    Validate_first_violation
      [of "counter\<lparr>Options := (Options counter)\<lparr>ModuleName := [], ClockType := ''x'',
                                             FirstState := []\<rparr>,
                   Inputs := None\<rparr>"]
    Validate_first_violation
      [of "counter\<lparr>Options := (Options counter)\<lparr>ClockType := ''Rising'', FirstState := []\<rparr>,
                   Inputs := None\<rparr>"]
    Validate_first_violation
      [of "counter\<lparr>Options := (Options counter)\<lparr>ClockType := ''NegEdge'', FirstState := []\<rparr>,
                   Inputs := None\<rparr>"]
    Validate_first_violation [of "counter\<lparr>Inputs := Some fmempty\<rparr>"]
    Validate_first_violation [of counter]
  by (simp add: counter_def ToLower_def lower_byte_def len_def)

section \<open>Defaults\<close>

text \<open>
  Claim C6.  Normalization is idempotent: running \<open>FixUpWithDefaults\<close> and, when it
  returns, running it again on the result gives what the first run gave.  The whole
  model is the same, so the inputs (one \<open>clk\<close>, at most one \<open>rst\<close>, both as the first run
  left them), the trimmed module name, \<open>AddAsyncReset\<close> and \<open>Indent\<close> are.
\<close>

theorem FixUpWithDefaults_idempotent:
  "(case FixUpWithDefaults m of Inl e \<Rightarrow> Inl e | Inr m' \<Rightarrow> FixUpWithDefaults m') =
   FixUpWithDefaults m"
proof (cases "Inputs m")
  case None
  then show ?thesis by (simp add: FixUpWithDefaults_def Let_def)
next
  case (Some t)
  then show ?thesis
    by (cases "AddAsyncReset (Options m)")
       (simp_all add: FixUpWithDefaults_def Let_def rst_clk_again)
qed

text \<open>
  Claim C7.  With \<open>AddAsyncReset\<close> unset, normalization returns a model whose
  \<open>AddAsyncReset\<close> is true and whose inputs hold \<open>rst\<close> with width 1; with
  \<open>AddAsyncReset\<close> false, it returns a model whose \<open>rst\<close> input is whatever it was before
  (none, if none was declared).  Normalization returns whenever the input map is not
  nil, which validation ensures; on a nil map it panics and gives no model.
\<close>

theorem FixUpWithDefaults_reset_policy:
  "(AddAsyncReset (Options m) = None \<and> Inputs m = Some t \<longrightarrow>
      (\<exists>m'. FixUpWithDefaults m = Inr m' \<and>
            AddAsyncReset (Options m') = Some True \<and>
            lookup (Inputs m') ''rst'' = Some \<lparr>BitWidth = 1, Type = [], DefaultValue = []\<rparr>)) \<and>
   (AddAsyncReset (Options m) = Some False \<and> Inputs m = Some t \<longrightarrow>
      (\<exists>m'. FixUpWithDefaults m = Inr m' \<and>
            AddAsyncReset (Options m') = Some False \<and>
            lookup (Inputs m') ''rst'' = lookup (Inputs m) ''rst'')) \<and>
   (Inputs m = None \<longrightarrow> (\<exists>e. FixUpWithDefaults m = Inl e))"
  by (simp add: FixUpWithDefaults_def Let_def lookup_def)

theorem FixUpWithDefaults_reset_policy_witness:
  "AddAsyncReset (Options counter) = None \<and>
   Inputs counter = Some (fmupd ''en'' wire fmempty) \<and>
   (\<exists>m'. FixUpWithDefaults counter = Inr m' \<and>
         AddAsyncReset (Options m') = Some True \<and>
         lookup (Inputs m') ''rst'' = Some \<lparr>BitWidth = 1, Type = [], DefaultValue = []\<rparr>) \<and>
   AddAsyncReset (Options counter_no_reset) = Some False \<and>
   Inputs counter_no_reset = Some (fmupd ''en'' wire fmempty) \<and>
   (\<exists>m'. FixUpWithDefaults counter_no_reset = Inr m' \<and>
         AddAsyncReset (Options m') = Some False \<and>
         lookup (Inputs m') ''rst'' = lookup (Inputs counter_no_reset) ''rst'') \<and>
   Inputs (counter\<lparr>Inputs := None\<rparr>) = None \<and>
   (\<exists>e. FixUpWithDefaults (counter\<lparr>Inputs := None\<rparr>) = Inl e)"
proof -
  have a: "AddAsyncReset (Options counter) = None \<and>
           Inputs counter = Some (fmupd ''en'' wire fmempty)"
    by (simp add: counter_def)
  have b: "AddAsyncReset (Options counter_no_reset) = Some False \<and>
           Inputs counter_no_reset = Some (fmupd ''en'' wire fmempty)"
    by (simp add: counter_no_reset_def counter_def)
  have c: "Inputs (counter\<lparr>Inputs := None\<rparr>) = None"
    by simp
  from a b c
    FixUpWithDefaults_reset_policy [of counter "fmupd ''en'' wire fmempty"]
    FixUpWithDefaults_reset_policy [of counter_no_reset "fmupd ''en'' wire fmempty"]
    FixUpWithDefaults_reset_policy [of "counter\<lparr>Inputs := None\<rparr>"]
  show ?thesis by blast
qed

text \<open>
  Claim C10.  An input that the description declares under the name \<open>clk\<close>, or under the
  name \<open>rst\<close> when \<open>AddAsyncReset\<close> is unset or true, is overwritten: after normalization
  the entry has width 1, empty \<open>Type\<close> and empty \<open>DefaultValue\<close>, whatever was declared,
  and normalization returns normally.
\<close>

theorem FixUpWithDefaults_overwrites_declared:
  "(Inputs m = Some t \<and> fmlookup t ''clk'' = Some v \<longrightarrow>
      (\<exists>m'. FixUpWithDefaults m = Inr m' \<and>
            lookup (Inputs m') ''clk'' = Some \<lparr>BitWidth = 1, Type = [], DefaultValue = []\<rparr>)) \<and>
   (Inputs m = Some t \<and> fmlookup t ''rst'' = Some v \<and>
    AddAsyncReset (Options m) \<noteq> Some False \<longrightarrow>
      (\<exists>m'. FixUpWithDefaults m = Inr m' \<and>
            lookup (Inputs m') ''rst'' = Some \<lparr>BitWidth = 1, Type = [], DefaultValue = []\<rparr>))"
  by (cases "AddAsyncReset (Options m)")
     (auto simp add: FixUpWithDefaults_def Let_def lookup_def)

theorem FixUpWithDefaults_overwrites_declared_witness:
  "Inputs counter_clash = Some (fmupd ''rst'' wide (fmupd ''clk'' wide fmempty)) \<and>
   fmlookup (fmupd ''rst'' wide (fmupd ''clk'' wide fmempty)) ''clk'' = Some wide \<and>
   fmlookup (fmupd ''rst'' wide (fmupd ''clk'' wide fmempty)) ''rst'' = Some wide \<and>
   AddAsyncReset (Options counter_clash) \<noteq> Some False \<and>
   (\<exists>m'. FixUpWithDefaults counter_clash = Inr m' \<and>
         lookup (Inputs m') ''clk'' = Some \<lparr>BitWidth = 1, Type = [], DefaultValue = []\<rparr>) \<and>
   (\<exists>m'. FixUpWithDefaults counter_clash = Inr m' \<and>
         lookup (Inputs m') ''rst'' = Some \<lparr>BitWidth = 1, Type = [], DefaultValue = []\<rparr>)"
proof -
  have a: "Inputs counter_clash = Some (fmupd ''rst'' wide (fmupd ''clk'' wide fmempty))"
    by (simp add: counter_clash_def)
  have b: "fmlookup (fmupd ''rst'' wide (fmupd ''clk'' wide fmempty)) ''clk'' = Some wide"
    by simp
  have c: "fmlookup (fmupd ''rst'' wide (fmupd ''clk'' wide fmempty)) ''rst'' = Some wide"
    by simp
  have d: "AddAsyncReset (Options counter_clash) \<noteq> Some False"
    by (simp add: counter_clash_def counter_def)
  from a b c d
    FixUpWithDefaults_overwrites_declared
      [of counter_clash "fmupd ''rst'' wide (fmupd ''clk'' wide fmempty)" wide]
  show ?thesis by blast
qed

section \<open>Rendering\<close>

text \<open>
  The register process does not depend on \<open>AddAsyncReset\<close>, and its first five writes
  are the same for every model: the sensitivity list and the reset branch.
\<close>

lemma register_process_ignores_AddAsyncReset:
  "register_process (m\<lparr>Options := (Options m)\<lparr>AddAsyncReset := r\<rparr>\<rparr>) = register_process m"
  by (simp add: register_process_def indent_def Let_def)

lemma register_process_head:
  "\<exists>rest. fst (register_process m) =
     [indent m 1, ''-- FSM state register\<newline>'',
      indent m 1, ''process(clk, rst)\<newline>'',
      indent m 1, ''begin\<newline>'',
      indent m 2, ''if (rst='1') then\<newline>'',
      indent m 3, ''state_reg <= '', FirstState (Options m), '';\<newline>''] @ rest"
  by (simp add: register_process_def Let_def)

text \<open>The value returned by the register process: the clock type is compared as given.\<close>

lemma register_process_error:
  "snd (register_process m) =
     (if ClockType (Options m) = ''posedge'' \<or> ClockType (Options m) = ''negedge'' then None
      else Some (errors_New (''Unrecognized clock type: '' @ ClockType (Options m))))"
  by (simp add: register_process_def Let_def)

text \<open>
  The only errors \<open>VHDL\<close> returns are the error of \<open>os.Create\<close> and the clock-type error;
  a write that fails is a panic.
\<close>

lemma VHDL_returned_errors:
  assumes "VHDL m env = Returned (Some e) fo"
  shows "create_error env = Some e \<or>
         e = errors_New (''Unrecognized clock type: '' @ ClockType (Options m))"
proof (cases "create_error env")
  case (Some err)
  with assms show ?thesis by (simp add: VHDL_def)
next
  case None
  with assms have "snd (register_process m) = Some e"
    by (auto simp add: VHDL_def VHDL_writes_def case_prod_beta split: sum.splits)
  then show ?thesis
    by (simp add: register_process_error split: if_splits)
qed

lemma VHDL_first_write_fails:
  assumes "create_error env = None" and "write_script env = Failed n e # rest"
  shows "VHDL m env = Panicked e \<lparr>content = take n ''\<newline>'', script = rest\<rparr>"
  using assms
  by (simp add: VHDL_def VHDL_writes_def preamble_def WriteString_def case_prod_beta)

lemma counter_fixed_run1:
  "ranges_of counter_fixed (run [] [(''en'', wire), (''clk'', wire), (''rst'', wire)] [])"
  unfolding ranges_of_def ranges_def counter_fixed_def run_def
  by (simp, intro fmap_ext, simp)

lemma counter_fixed_run2:
  "ranges_of counter_fixed (run [] [(''clk'', wire), (''rst'', wire), (''en'', wire)] [])"
  unfolding ranges_of_def ranges_def counter_fixed_def run_def
  by (simp, intro fmap_ext, simp)

lemma counter_generic_run1:
  "ranges_of counter_generic
     (run [(''WIDTH'', width8)] [(''en'', wire), (''clk'', wire), (''rst'', wire)]
          [(''q'', bus8)])"
  by (simp add: ranges_of_def ranges_def counter_generic_def counter_fixed_def run_def,
      intro fmap_ext, simp)

lemma counter_generic_run2:
  "ranges_of counter_generic
     (run [(''WIDTH'', width8)] [(''clk'', wire), (''rst'', wire), (''en'', wire)]
          [(''q'', bus8)])"
  by (simp add: ranges_of_def ranges_def counter_generic_def counter_fixed_def run_def,
      intro fmap_ext, simp)

lemma counter_no_reset_run:
  "ranges_of counter_no_reset_fixed (run [] [(''en'', wire), (''clk'', wire)] [])"
  unfolding ranges_of_def ranges_def counter_no_reset_fixed_def run_def
  by (simp, intro fmap_ext, simp)

lemma counter_PosEdge_run:
  "ranges_of counter_PosEdge_fixed
     (run [] [(''en'', wire), (''clk'', wire), (''rst'', wire)] [])"
  unfolding ranges_of_def ranges_def counter_PosEdge_fixed_def counter_fixed_def run_def
  by (simp, intro fmap_ext, simp)

text \<open>
  Claim C1.  The claim says that with \<open>AddAsyncReset\<close> false the register process has no
  reset branch and is sensitive to \<open>clk\<close> only.  The code writes \<open>process(clk, rst)\<close> and
  the branch \<open>if (rst='1')\<close> without reading \<open>AddAsyncReset\<close>.  Here is the run on the
  counter with \<open>AddAsyncReset: false\<close>, validated and normalized: the model has no input
  \<open>rst\<close>, no port \<open>rst\<close> is written, and the process still names \<open>rst\<close> and resets on it.
\<close>

theorem VHDL_reset_disabled_keeps_reset_branch:
  "Validate counter_no_reset = None \<and>
   FixUpWithDefaults counter_no_reset = Inr counter_no_reset_fixed \<and>
   AddAsyncReset (Options counter_no_reset_fixed) = Some False \<and>
   lookup (Inputs counter_no_reset_fixed) ''rst'' = None \<and>
   ranges_of counter_no_reset_fixed (run [] [(''en'', wire), (''clk'', wire)] []) \<and>
   VHDL counter_no_reset_fixed (run [] [(''en'', wire), (''clk'', wire)] []) =
     Returned None
       (Some \<lparr>content = concat
         [''\<newline>'',
          ''--------------------------------------------------------------------------------\<newline>'',
          ''-- Module Name: Counter\<newline>'',
          ''-- Author:      \<newline>'',
          ''-- Date:        1 Nov 2026\<newline>'',
          ''--\<newline>'',
          ''--------------------------------------------------------------------------------\<newline>'',
          ''\<newline>'',
          ''\<newline>'',
          ''library IEEE;\<newline>'',
          ''use IEEE.STD_LOGIC_1164.ALL;\<newline>'',
          ''use IEEE.NUMERIC_STD.ALL;\<newline>'',
          ''\<newline>'',
          ''entity Counter is\<newline>'',
          ''    port (\<newline>'',
          ''          en : in std_logic\<newline>'',
          ''        ; clk : in std_logic\<newline>'',
          ''    );\<newline>'',
          ''end Counter;\<newline>'',
          ''\<newline>'',
          ''architecture Behavioral of Counter is\<newline>'',
          ''    -- FSM declarations\<newline>'',
          ''    type state is ();\<newline>'',
          ''    signal state_reg, state_next : state := S0;\<newline>'',
          ''begin\<newline>'',
          ''    -- FSM state register\<newline>'',
          ''    process(clk, rst)\<newline>'',
          ''    begin\<newline>'',
          ''        if (rst='1') then\<newline>'',
          ''            state_reg <= S0;\<newline>'',
          ''        elsif (clk'event and clk='1') then\<newline>'',
          ''            state_reg <= state_next;\<newline>'',
          ''        end if;\<newline>'',
          ''    end process;\<newline>'',
          ''end Behavioral;\<newline>'',
          ''\<newline>''],
        script = []\<rparr>)"
proof -
  have valid: "Validate counter_no_reset = None"
    by (simp add: Validate_def counter_no_reset_def counter_def ToLower_def lower_byte_def
        len_def)
  have fixed: "FixUpWithDefaults counter_no_reset = Inr counter_no_reset_fixed"
    by (simp add: FixUpWithDefaults_def counter_no_reset_def counter_def
        counter_no_reset_fixed_def Replace_def wire_def)
  have disabled: "AddAsyncReset (Options counter_no_reset_fixed) = Some False"
    by (simp add: counter_no_reset_fixed_def)
  have no_rst: "lookup (Inputs counter_no_reset_fixed) ''rst'' = None"
    by (simp add: counter_no_reset_fixed_def lookup_def)
  have rendered:
    "VHDL counter_no_reset_fixed (run [] [(''en'', wire), (''clk'', wire)] []) =
     Returned None
       (Some \<lparr>content = concat
         [''\<newline>'',
          ''--------------------------------------------------------------------------------\<newline>'',
          ''-- Module Name: Counter\<newline>'',
          ''-- Author:      \<newline>'',
          ''-- Date:        1 Nov 2026\<newline>'',
          ''--\<newline>'',
          ''--------------------------------------------------------------------------------\<newline>'',
          ''\<newline>'',
          ''\<newline>'',
          ''library IEEE;\<newline>'',
          ''use IEEE.STD_LOGIC_1164.ALL;\<newline>'',
          ''use IEEE.NUMERIC_STD.ALL;\<newline>'',
          ''\<newline>'',
          ''entity Counter is\<newline>'',
          ''    port (\<newline>'',
          ''          en : in std_logic\<newline>'',
          ''        ; clk : in std_logic\<newline>'',
          ''    );\<newline>'',
          ''end Counter;\<newline>'',
          ''\<newline>'',
          ''architecture Behavioral of Counter is\<newline>'',
          ''    -- FSM declarations\<newline>'',
          ''    type state is ();\<newline>'',
          ''    signal state_reg, state_next : state := S0;\<newline>'',
          ''begin\<newline>'',
          ''    -- FSM state register\<newline>'',
          ''    process(clk, rst)\<newline>'',
          ''    begin\<newline>'',
          ''        if (rst='1') then\<newline>'',
          ''            state_reg <= S0;\<newline>'',
          ''        elsif (clk'event and clk='1') then\<newline>'',
          ''            state_reg <= state_next;\<newline>'',
          ''        end if;\<newline>'',
          ''    end process;\<newline>'',
          ''end Behavioral;\<newline>'',
          ''\<newline>''],
        script = []\<rparr>)"
    by (simp add: VHDL_accepting render_defs counter_no_reset_fixed_def run_def wire_def)
  from valid fixed disabled no_rst counter_no_reset_run rendered show ?thesis
    by (intro conjI)
qed

text \<open>
  Claim C2.  The claim says that a clock type that lower-cases to \<open>posedge\<close> renders the
  rising-edge branch.  \<open>Validate\<close> lower-cases the clock type before it compares, but
  \<open>VHDL\<close> compares the clock type as it was given, and nothing in between lowers it.
  Here is the run on the counter with \<open>ClockType: "PosEdge"\<close>: validation passes, and
  \<open>VHDL\<close> stops after the reset branch and returns the unrecognized-clock-type error.
\<close>

theorem VHDL_rejects_mixed_case_clock:
  "ToLower (ClockType (Options counter_PosEdge)) = ''posedge'' \<and>
   Validate counter_PosEdge = None \<and>
   FixUpWithDefaults counter_PosEdge = Inr counter_PosEdge_fixed \<and>
   ranges_of counter_PosEdge_fixed
     (run [] [(''en'', wire), (''clk'', wire), (''rst'', wire)] []) \<and>
   VHDL counter_PosEdge_fixed (run [] [(''en'', wire), (''clk'', wire), (''rst'', wire)] []) =
     Returned (Some (errors_New ''Unrecognized clock type: PosEdge''))
       (Some \<lparr>content = concat
         [''\<newline>'',
          ''--------------------------------------------------------------------------------\<newline>'',
          ''-- Module Name: Counter\<newline>'',
          ''-- Author:      \<newline>'',
          ''-- Date:        1 Nov 2026\<newline>'',
          ''--\<newline>'',
          ''--------------------------------------------------------------------------------\<newline>'',
          ''\<newline>'',
          ''\<newline>'',
          ''library IEEE;\<newline>'',
          ''use IEEE.STD_LOGIC_1164.ALL;\<newline>'',
          ''use IEEE.NUMERIC_STD.ALL;\<newline>'',
          ''\<newline>'',
          ''entity Counter is\<newline>'',
          ''    port (\<newline>'',
          ''          en : in std_logic\<newline>'',
          ''        ; clk : in std_logic\<newline>'',
          ''        ; rst : in std_logic\<newline>'',
          ''    );\<newline>'',
          ''end Counter;\<newline>'',
          ''\<newline>'',
          ''architecture Behavioral of Counter is\<newline>'',
          ''    -- FSM declarations\<newline>'',
          ''    type state is ();\<newline>'',
          ''    signal state_reg, state_next : state := S0;\<newline>'',
          ''begin\<newline>'',
          ''    -- FSM state register\<newline>'',
          ''    process(clk, rst)\<newline>'',
          ''    begin\<newline>'',
          ''        if (rst='1') then\<newline>'',
          ''            state_reg <= S0;\<newline>''],
        script = []\<rparr>)"
proof -
  have lower: "ToLower (ClockType (Options counter_PosEdge)) = ''posedge''"
    by (simp add: counter_PosEdge_def counter_def ToLower_def lower_byte_def)
  have valid: "Validate counter_PosEdge = None"
    by (simp add: Validate_def counter_PosEdge_def counter_def ToLower_def lower_byte_def
        len_def)
  have fixed: "FixUpWithDefaults counter_PosEdge = Inr counter_PosEdge_fixed"
    by (simp add: FixUpWithDefaults_def counter_PosEdge_def counter_def
        counter_PosEdge_fixed_def counter_fixed_def Replace_def wire_def)
  have rendered:
    "VHDL counter_PosEdge_fixed
       (run [] [(''en'', wire), (''clk'', wire), (''rst'', wire)] []) =
     Returned (Some (errors_New ''Unrecognized clock type: PosEdge''))
       (Some \<lparr>content = concat
         [''\<newline>'',
          ''--------------------------------------------------------------------------------\<newline>'',
          ''-- Module Name: Counter\<newline>'',
          ''-- Author:      \<newline>'',
          ''-- Date:        1 Nov 2026\<newline>'',
          ''--\<newline>'',
          ''--------------------------------------------------------------------------------\<newline>'',
          ''\<newline>'',
          ''\<newline>'',
          ''library IEEE;\<newline>'',
          ''use IEEE.STD_LOGIC_1164.ALL;\<newline>'',
          ''use IEEE.NUMERIC_STD.ALL;\<newline>'',
          ''\<newline>'',
          ''entity Counter is\<newline>'',
          ''    port (\<newline>'',
          ''          en : in std_logic\<newline>'',
          ''        ; clk : in std_logic\<newline>'',
          ''        ; rst : in std_logic\<newline>'',
          ''    );\<newline>'',
          ''end Counter;\<newline>'',
          ''\<newline>'',
          ''architecture Behavioral of Counter is\<newline>'',
          ''    -- FSM declarations\<newline>'',
          ''    type state is ();\<newline>'',
          ''    signal state_reg, state_next : state := S0;\<newline>'',
          ''begin\<newline>'',
          ''    -- FSM state register\<newline>'',
          ''    process(clk, rst)\<newline>'',
          ''    begin\<newline>'',
          ''        if (rst='1') then\<newline>'',
          ''            state_reg <= S0;\<newline>''],
        script = []\<rparr>)"
    by (simp add: VHDL_accepting render_defs counter_PosEdge_fixed_def counter_fixed_def
        run_def wire_def)
  from lower valid fixed counter_PosEdge_run rendered show ?thesis
    by (intro conjI)
qed

text \<open>
  Claim C3.  The claim says that a failed write comes back to the caller as an error
  value.  \<open>write\<close> panics instead, and \<open>VHDL\<close> does not recover: the caller gets no return
  value at all.  Here are two runs on the normalized counter: the second write fails
  with an error and nothing written, and the second write fails with an error after 40
  of its 81 bytes.
\<close>

theorem VHDL_write_failure_panics:
  "VHDL counter_fixed
     ((run [] [(''en'', wire), (''clk'', wire), (''rst'', wire)] [])
        \<lparr>write_script := [Written, Failed 0 (PathError ''no space left on device'')]\<rparr>) =
     Panicked (PathError ''no space left on device'') \<lparr>content = ''\<newline>'', script = []\<rparr> \<and>
   VHDL counter_fixed
     ((run [] [(''en'', wire), (''clk'', wire), (''rst'', wire)] [])
        \<lparr>write_script := [Written, Failed 40 (PathError ''no space left on device'')]\<rparr>) =
     Panicked (PathError ''no space left on device'')
       \<lparr>content = ''\<newline>----------------------------------------'', script = []\<rparr>"
  by (simp add: VHDL_def run_def VHDL_writes_def preamble_def WriteString_def
      split: prod.split)

text \<open>
  Claim C9.  When the file is created and takes every write, the output is the preamble,
  then the generic clause, then the port clause, then the declarations and the register
  process.  The generic clause is empty exactly when \<open>Parameters\<close> is empty and otherwise
  opens with \<open>generic (\<close> and closes with \<open>);\<close>; the port clause is empty exactly when
  \<open>Inputs\<close> and \<open>Outputs\<close> are both empty and otherwise opens with \<open>port (\<close> and closes
  with \<open>);\<close>.  This holds whether \<open>VHDL\<close> returns \<open>nil\<close> or the clock-type error.
\<close>

theorem VHDL_optional_clauses:
  assumes "create_error env = None" and "write_script env = []"
  shows
    "VHDL m env =
       Returned (snd (register_process m))
         (Some \<lparr>content =
                  concat (preamble m (today env)) @
                  concat (generics m (range_Parameters env)) @
                  concat (ports m (range_Inputs env) (range_Outputs env)) @
                  concat (declarations m) @
                  concat (fst (register_process m)),
                script = []\<rparr>) \<and>
     (concat (generics m (range_Parameters env)) = [] \<longleftrightarrow> len (Parameters m) = 0) \<and>
     (len (Parameters m) > 0 \<longrightarrow>
        (\<exists>body. concat (generics m (range_Parameters env)) =
                  indent m 1 @ ''generic (\<newline>'' @ body @ indent m 1 @ '');\<newline>'')) \<and>
     (concat (ports m (range_Inputs env) (range_Outputs env)) = [] \<longleftrightarrow>
        len (Inputs m) = 0 \<and> len (Outputs m) = 0) \<and>
     (len (Inputs m) > 0 \<or> len (Outputs m) > 0 \<longrightarrow>
        (\<exists>body. concat (ports m (range_Inputs env) (range_Outputs env)) =
                  indent m 1 @ ''port (\<newline>'' @ body @ indent m 1 @ '');\<newline>''))"
proof -
  have whole: "VHDL m env =
       Returned (snd (register_process m))
         (Some \<lparr>content =
                  concat (preamble m (today env)) @
                  concat (generics m (range_Parameters env)) @
                  concat (ports m (range_Inputs env) (range_Outputs env)) @
                  concat (declarations m) @
                  concat (fst (register_process m)),
                script = []\<rparr>)"
    using assms by (simp add: VHDL_accepting VHDL_writes_def case_prod_beta)
  have g0: "concat (generics m (range_Parameters env)) = [] \<longleftrightarrow> len (Parameters m) = 0"
    by (cases "len (Parameters m) = 0") (simp_all add: generics_def del: concat_eq_Nil_conv)
  have g1: "len (Parameters m) > 0 \<longrightarrow>
        (\<exists>body. concat (generics m (range_Parameters env)) =
                  indent m 1 @ ''generic (\<newline>'' @ body @ indent m 1 @ '');\<newline>'')"
    by (simp add: generics_def)
  have p0: "concat (ports m (range_Inputs env) (range_Outputs env)) = [] \<longleftrightarrow>
        len (Inputs m) = 0 \<and> len (Outputs m) = 0"
    by (cases "len (Inputs m) = 0 \<and> len (Outputs m) = 0")
       (auto simp add: ports_def case_prod_beta simp del: concat_eq_Nil_conv)
  have p1: "len (Inputs m) > 0 \<or> len (Outputs m) > 0 \<longrightarrow>
        (\<exists>body. concat (ports m (range_Inputs env) (range_Outputs env)) =
                  indent m 1 @ ''port (\<newline>'' @ body @ indent m 1 @ '');\<newline>'')"
    by (auto simp add: ports_def case_prod_beta)
  from whole g0 g1 p0 p1 show ?thesis by (intro conjI)
qed

theorem VHDL_optional_clauses_witness:
  "create_error (run [(''WIDTH'', width8)] [(''en'', wire), (''clk'', wire), (''rst'', wire)]
                     [(''q'', bus8)]) = None \<and>
   write_script (run [(''WIDTH'', width8)] [(''en'', wire), (''clk'', wire), (''rst'', wire)]
                     [(''q'', bus8)]) = [] \<and>
   len (Parameters counter_generic) > 0 \<and>
   len (Inputs counter_generic) > 0 \<and>
   len (Parameters counter_fixed) = 0 \<and>
   (\<exists>body. concat (generics counter_generic [(''WIDTH'', width8)]) =
             ''    generic (\<newline>'' @ body @ ''    );\<newline>'') \<and>
   (\<exists>body. concat (ports counter_generic [(''en'', wire), (''clk'', wire), (''rst'', wire)]
                      [(''q'', bus8)]) =
             ''    port (\<newline>'' @ body @ ''    );\<newline>'') \<and>
   concat (generics counter_fixed []) = []"
proof -
  have e: "create_error (run [(''WIDTH'', width8)]
             [(''en'', wire), (''clk'', wire), (''rst'', wire)] [(''q'', bus8)]) = None"
    and w: "write_script (run [(''WIDTH'', width8)]
             [(''en'', wire), (''clk'', wire), (''rst'', wire)] [(''q'', bus8)]) = []"
    and e0: "create_error (run [] [] []) = None"
    and w0: "write_script (run [] [] []) = []"
    by (simp_all add: run_def)
  have lp: "len (Parameters counter_generic) > 0"
    and li: "len (Inputs counter_generic) > 0"
    and l0: "len (Parameters counter_fixed) = 0"
    by (simp_all add: counter_generic_def counter_fixed_def len_def fcard_finsert_if)
  have i: "indent counter_generic 1 = ''    ''"
    by (simp add: indent_unfold counter_generic_def counter_fixed_def)
  from VHDL_optional_clauses [OF e w, of counter_generic] lp li i
  have g: "\<exists>body. concat (generics counter_generic [(''WIDTH'', width8)]) =
             ''    generic (\<newline>'' @ body @ ''    );\<newline>''"
    and p: "\<exists>body. concat (ports counter_generic [(''en'', wire), (''clk'', wire), (''rst'', wire)]
                      [(''q'', bus8)]) =
             ''    port (\<newline>'' @ body @ ''    );\<newline>''"
    by (simp_all add: run_def)
  from VHDL_optional_clauses [OF e0 w0, of counter_fixed] l0
  have g0: "concat (generics counter_fixed []) = []"
    by (simp add: run_def)
  from e w lp li l0 g p g0 show ?thesis by (intro conjI)
qed

text \<open>
  Claim C5, as stated, fails for generics: the loop over \<open>Parameters\<close> writes
  \<open>name: Type := DefaultValue\<close> and never reads \<open>BitWidth\<close>.  The parameter \<open>WIDTH\<close> has
  \<open>BitWidth\<close> 8 and is rendered without any range.
\<close>

theorem generic_ignores_BitWidth:
  "ranges (Parameters counter_generic) [(''WIDTH'', width8)] \<and>
   BitWidth width8 = 8 \<and>
   concat (generics counter_generic [(''WIDTH'', width8)]) =
     concat [''    generic (\<newline>'',
             ''          WIDTH: std_logic := 8\<newline>'',
             ''    );\<newline>''] \<and>
   \<not> sublist ''(7 downto 0)'' (concat (generics counter_generic [(''WIDTH'', width8)]))"
proof -
  have r: "ranges (Parameters counter_generic) [(''WIDTH'', width8)]"
    by (simp add: ranges_def counter_generic_def)
  have w: "BitWidth width8 = 8"
    by (simp add: width8_def)
  have g: "concat (generics counter_generic [(''WIDTH'', width8)]) =
     concat [''    generic (\<newline>'',
             ''          WIDTH: std_logic := 8\<newline>'',
             ''    );\<newline>'']"
    by (simp add: render_defs counter_generic_def counter_fixed_def width8_def)
  have n: "\<not> sublist ''(7 downto 0)'' (concat (generics counter_generic [(''WIDTH'', width8)]))"
    unfolding g by (simp add: sublist_code)
  from r w g n show ?thesis by (intro conjI)
qed

text \<open>
  Claim C5, amended.  Every variable rendered as a port, wherever it stands in the list,
  has the type \<open>std_logic\<close> when its \<open>BitWidth\<close> is 1 and the type
  \<open>std_logic_vector (W-1 downto 0)\<close> when its \<open>BitWidth\<close> is \<open>W > 1\<close>.  Every variable rendered
  as a generic has its \<open>Type\<close> written as it is, whatever its \<open>BitWidth\<close>.
\<close>

theorem port_type_follows_BitWidth:
  "(BitWidth v = 1 \<longrightarrow>
      concat (input_entry name v) = name @ '' : in std_logic\<newline>'' \<and>
      concat (output_entry name v) = name @ '' : out std_logic\<newline>'') \<and>
   (1 < BitWidth v \<longrightarrow>
      concat (input_entry name v) =
        name @ '' : in std_logic_vector ('' @ decimal (unat (BitWidth v) - 1) @
        '' downto 0)\<newline>'' \<and>
      concat (output_entry name v) =
        name @ '' : out std_logic_vector ('' @ decimal (unat (BitWidth v) - 1) @
        '' downto 0)\<newline>'') \<and>
   concat (generic_entry name v) =
     name @ '': '' @ Type v @ '' := '' @ DefaultValue v @ ''\<newline>'' \<and>
   fst (inputs_loop m b (pre @ (name, v) # post)) =
     fst (inputs_loop m b pre) @
     [indent m 2, if b \<and> pre = [] then ''  '' else ''; ''] @ input_entry name v @
     fst (inputs_loop m False post) \<and>
   fst (outputs_loop m b (pre @ (name, v) # post)) =
     fst (outputs_loop m b pre) @
     [indent m 2, if b \<and> pre = [] then ''  '' else ''; ''] @ output_entry name v @
     fst (outputs_loop m False post) \<and>
   generics_loop m b (pre @ (name, v) # post) =
     generics_loop m b pre @
     [indent m 2, if b \<and> pre = [] then ''  '' else ''; ''] @ generic_entry name v @
     generics_loop m False post"
proof -
  have scalar: "BitWidth v = 1 \<longrightarrow>
      concat (input_entry name v) = name @ '' : in std_logic\<newline>'' \<and>
      concat (output_entry name v) = name @ '' : out std_logic\<newline>''"
    by (simp add: input_entry_def output_entry_def)
  have vector: "1 < BitWidth v \<longrightarrow>
      concat (input_entry name v) =
        name @ '' : in std_logic_vector ('' @ decimal (unat (BitWidth v) - 1) @
        '' downto 0)\<newline>'' \<and>
      concat (output_entry name v) =
        name @ '' : out std_logic_vector ('' @ decimal (unat (BitWidth v) - 1) @
        '' downto 0)\<newline>''"
    by (simp add: input_entry_def output_entry_def FormatUint_def unat_pred)
  have generic: "concat (generic_entry name v) =
     name @ '': '' @ Type v @ '' := '' @ DefaultValue v @ ''\<newline>''"
    by (simp add: generic_entry_def)
  from scalar vector generic inputs_loop_fst [of m b pre name v post]
    outputs_loop_fst [of m b pre name v post] generics_loop_entry [of m b pre name v post]
  show ?thesis by (intro conjI)
qed

theorem port_type_follows_BitWidth_witness:
  "BitWidth wire = 1 \<and>
   concat (input_entry ''en'' wire) = ''en : in std_logic\<newline>'' \<and>
   1 < BitWidth bus8 \<and>
   concat (output_entry ''q'' bus8) = ''q : out std_logic_vector (7 downto 0)\<newline>''"
  using port_type_follows_BitWidth [of wire "''en''"]
    port_type_follows_BitWidth [of bus8 "''q''"]
  by (simp add: wire_def bus8_def)

text \<open>
  Claim C4, as stated, fails: the order of the ports is the order in which \<open>range\<close>
  yields the entries of the map, and Go does not fix it.  Two runs on the normalized
  counter, both with orders a \<open>range\<close> can yield, write different port lists.
\<close>

theorem VHDL_port_order_differs:
  "ranges_of counter_fixed (run [] [(''en'', wire), (''clk'', wire), (''rst'', wire)] []) \<and>
   ranges_of counter_fixed (run [] [(''clk'', wire), (''rst'', wire), (''en'', wire)] []) \<and>
   concat (ports counter_fixed [(''en'', wire), (''clk'', wire), (''rst'', wire)] []) =
     concat [''    port (\<newline>'',
             ''          en : in std_logic\<newline>'',
             ''        ; clk : in std_logic\<newline>'',
             ''        ; rst : in std_logic\<newline>'',
             ''    );\<newline>''] \<and>
   concat (ports counter_fixed [(''clk'', wire), (''rst'', wire), (''en'', wire)] []) =
     concat [''    port (\<newline>'',
             ''          clk : in std_logic\<newline>'',
             ''        ; rst : in std_logic\<newline>'',
             ''        ; en : in std_logic\<newline>'',
             ''    );\<newline>''] \<and>
   VHDL counter_fixed (run [] [(''en'', wire), (''clk'', wire), (''rst'', wire)] []) \<noteq>
   VHDL counter_fixed (run [] [(''clk'', wire), (''rst'', wire), (''en'', wire)] [])"
proof -
  have p1: "concat (ports counter_fixed [(''en'', wire), (''clk'', wire), (''rst'', wire)] []) =
     concat [''    port (\<newline>'',
             ''          en : in std_logic\<newline>'',
             ''        ; clk : in std_logic\<newline>'',
             ''        ; rst : in std_logic\<newline>'',
             ''    );\<newline>'']"
    by (simp add: render_defs counter_fixed_def wire_def)
  have p2: "concat (ports counter_fixed [(''clk'', wire), (''rst'', wire), (''en'', wire)] []) =
     concat [''    port (\<newline>'',
             ''          clk : in std_logic\<newline>'',
             ''        ; rst : in std_logic\<newline>'',
             ''        ; en : in std_logic\<newline>'',
             ''    );\<newline>'']"
    by (simp add: render_defs counter_fixed_def wire_def)
  have ne: "VHDL counter_fixed (run [] [(''en'', wire), (''clk'', wire), (''rst'', wire)] []) \<noteq>
   VHDL counter_fixed (run [] [(''clk'', wire), (''rst'', wire), (''en'', wire)] [])"
    by (simp add: VHDL_accepting render_defs counter_fixed_def run_def wire_def)
  from counter_fixed_run1 counter_fixed_run2 p1 p2 ne show ?thesis
    by (intro conjI)
qed

text \<open>
  Claim C4, amended.  Take a run in which the file is created and takes every write, and
  in which each \<open>range\<close> yields a sequence it can yield.  Then the output is the preamble,
  the generic clause, the port clause, the declarations and the register process; the
  generic clause lists the entries of \<open>Parameters\<close> in the order its \<open>range\<close> yields them;
  the port clause lists the entries of \<open>Inputs\<close> in the order of their \<open>range\<close> and after
  them the entries of \<open>Outputs\<close> in the order of theirs, the first entry of the list after
  the leading blanks and every other after the separator.  Each of the three sequences
  holds every declared name once, with its declared variable, and no other.  A second run
  ranges over the same entries, possibly in another order; a second run with the same
  date and the same three orders writes the same output.
\<close>

theorem VHDL_order_is_range_order:
  assumes "create_error env = None" and "write_script env = []"
    and "ranges_of m env" and "ranges_of m env'"
  shows
    "VHDL m env =
       Returned (snd (register_process m))
         (Some \<lparr>content =
                  concat (preamble m (today env)) @
                  concat (generics m (range_Parameters env)) @
                  concat (ports m (range_Inputs env) (range_Outputs env)) @
                  concat (declarations m) @
                  concat (fst (register_process m)),
                script = []\<rparr>) \<and>
     generics m (range_Parameters env) =
       (if range_Parameters env = [] then []
        else [indent m 1, ''generic (\<newline>''] @
             concat (map (\<lambda>(first, e). [indent m 2, if first then ''  '' else ''; ''] @ e)
                         (zip (True # replicate (length (range_Parameters env)) False)
                              (map (\<lambda>(name, v). generic_entry name v)
                                   (range_Parameters env)))) @
             [indent m 1, '');\<newline>'']) \<and>
     ports m (range_Inputs env) (range_Outputs env) =
       (if range_Inputs env = [] \<and> range_Outputs env = [] then []
        else [indent m 1, ''port (\<newline>''] @
             concat (map (\<lambda>(first, e). [indent m 2, if first then ''  '' else ''; ''] @ e)
                         (zip (True # replicate (length (range_Inputs env) +
                                                 length (range_Outputs env)) False)
                              (map (\<lambda>(name, v). input_entry name v) (range_Inputs env) @
                               map (\<lambda>(name, v). output_entry name v)
                                   (range_Outputs env)))) @
             [indent m 1, '');\<newline>'']) \<and>
     distinct (map fst (range_Parameters env)) \<and>
     distinct (map fst (range_Inputs env)) \<and>
     distinct (map fst (range_Outputs env)) \<and>
     set (range_Parameters env) = {(k, v). lookup (Parameters m) k = Some v} \<and>
     set (range_Inputs env) = {(k, v). lookup (Inputs m) k = Some v} \<and>
     set (range_Outputs env) = {(k, v). lookup (Outputs m) k = Some v} \<and>
     mset (range_Parameters env') = mset (range_Parameters env) \<and>
     mset (range_Inputs env') = mset (range_Inputs env) \<and>
     mset (range_Outputs env') = mset (range_Outputs env) \<and>
     (create_error env' = None \<and> write_script env' = [] \<and> today env' = today env \<and>
      range_Parameters env' = range_Parameters env \<and>
      range_Inputs env' = range_Inputs env \<and>
      range_Outputs env' = range_Outputs env \<longrightarrow>
        VHDL m env' = VHDL m env)"
proof -
  from assms(3) have rp: "ranges (Parameters m) (range_Parameters env)"
    and ri: "ranges (Inputs m) (range_Inputs env)"
    and ro: "ranges (Outputs m) (range_Outputs env)"
    by (simp_all add: ranges_of_def)
  from assms(4) have rp': "ranges (Parameters m) (range_Parameters env')"
    and ri': "ranges (Inputs m) (range_Inputs env')"
    and ro': "ranges (Outputs m) (range_Outputs env')"
    by (simp_all add: ranges_of_def)
  have whole: "VHDL m env =
       Returned (snd (register_process m))
         (Some \<lparr>content =
                  concat (preamble m (today env)) @
                  concat (generics m (range_Parameters env)) @
                  concat (ports m (range_Inputs env) (range_Outputs env)) @
                  concat (declarations m) @
                  concat (fst (register_process m)),
                script = []\<rparr>)"
    using assms(1,2) by (simp add: VHDL_accepting VHDL_writes_def case_prod_beta)
  have gen: "generics m (range_Parameters env) =
       (if range_Parameters env = [] then []
        else [indent m 1, ''generic (\<newline>''] @
             concat (map (\<lambda>(first, e). [indent m 2, if first then ''  '' else ''; ''] @ e)
                         (zip (True # replicate (length (range_Parameters env)) False)
                              (map (\<lambda>(name, v). generic_entry name v)
                                   (range_Parameters env)))) @
             [indent m 1, '');\<newline>''])"
    using ranges_empty [OF rp]
    by (simp add: generics_def generics_loop_layout)
  have por: "ports m (range_Inputs env) (range_Outputs env) =
       (if range_Inputs env = [] \<and> range_Outputs env = [] then []
        else [indent m 1, ''port (\<newline>''] @
             concat (map (\<lambda>(first, e). [indent m 2, if first then ''  '' else ''; ''] @ e)
                         (zip (True # replicate (length (range_Inputs env) +
                                                 length (range_Outputs env)) False)
                              (map (\<lambda>(name, v). input_entry name v) (range_Inputs env) @
                               map (\<lambda>(name, v). output_entry name v)
                                   (range_Outputs env)))) @
             [indent m 1, '');\<newline>''])"
    using ranges_empty [OF ri] ranges_empty [OF ro]
      ports_loops_layout [of m "range_Inputs env" "range_Outputs env"]
    by (auto simp add: ports_def case_prod_beta)
  have same: "create_error env' = None \<and> write_script env' = [] \<and> today env' = today env \<and>
      range_Parameters env' = range_Parameters env \<and>
      range_Inputs env' = range_Inputs env \<and>
      range_Outputs env' = range_Outputs env \<longrightarrow>
        VHDL m env' = VHDL m env"
    using assms(1,2) by (simp add: VHDL_accepting VHDL_writes_def case_prod_beta)
  from whole gen por
    ranges_entries(1) [OF rp] ranges_entries(1) [OF ri] ranges_entries(1) [OF ro]
    ranges_entries(2) [OF rp] ranges_entries(2) [OF ri] ranges_entries(2) [OF ro]
    ranges_mset [OF rp' rp] ranges_mset [OF ri' ri] ranges_mset [OF ro' ro] same
  show ?thesis by (intro conjI)
qed

theorem VHDL_order_is_range_order_witness:
  "create_error (run [(''WIDTH'', width8)] [(''en'', wire), (''clk'', wire), (''rst'', wire)]
                     [(''q'', bus8)]) = None \<and>
   write_script (run [(''WIDTH'', width8)] [(''en'', wire), (''clk'', wire), (''rst'', wire)]
                     [(''q'', bus8)]) = [] \<and>
   ranges_of counter_generic
     (run [(''WIDTH'', width8)] [(''en'', wire), (''clk'', wire), (''rst'', wire)]
          [(''q'', bus8)]) \<and>
   ranges_of counter_generic
     (run [(''WIDTH'', width8)] [(''clk'', wire), (''rst'', wire), (''en'', wire)]
          [(''q'', bus8)]) \<and>
   ports counter_generic [(''en'', wire), (''clk'', wire), (''rst'', wire)] [(''q'', bus8)] =
     [''    '', ''port (\<newline>'',
      ''        '', ''  '', ''en'', '' : in std_logic'', ''\<newline>'',
      ''        '', ''; '', ''clk'', '' : in std_logic'', ''\<newline>'',
      ''        '', ''; '', ''rst'', '' : in std_logic'', ''\<newline>'',
      ''        '', ''; '', ''q'', '' : out std_logic'', ''_vector ('', ''7'',
        '' downto 0)'', ''\<newline>'',
      ''    '', '');\<newline>''] \<and>
   mset [(''clk'', wire), (''rst'', wire), (''en'', wire)] =
     mset [(''en'', wire), (''clk'', wire), (''rst'', wire)]"
proof -
  have e: "create_error (run [(''WIDTH'', width8)]
             [(''en'', wire), (''clk'', wire), (''rst'', wire)] [(''q'', bus8)]) = None"
    and w: "write_script (run [(''WIDTH'', width8)]
             [(''en'', wire), (''clk'', wire), (''rst'', wire)] [(''q'', bus8)]) = []"
    by (simp_all add: run_def)
  note all = VHDL_order_is_range_order [OF e w counter_generic_run1 counter_generic_run2]
  from all have p:
    "ports counter_generic [(''en'', wire), (''clk'', wire), (''rst'', wire)]
       [(''q'', bus8)] =
     [''    '', ''port (\<newline>'',
      ''        '', ''  '', ''en'', '' : in std_logic'', ''\<newline>'',
      ''        '', ''; '', ''clk'', '' : in std_logic'', ''\<newline>'',
      ''        '', ''; '', ''rst'', '' : in std_logic'', ''\<newline>'',
      ''        '', ''; '', ''q'', '' : out std_logic'', ''_vector ('', ''7'',
        '' downto 0)'', ''\<newline>'',
      ''    '', '');\<newline>'']"
    by (simp add: run_def indent_unfold input_entry_def output_entry_def FormatUint_def
        counter_generic_def counter_fixed_def wire_def bus8_def)
  from all have ms:
    "mset [(''clk'', wire), (''rst'', wire), (''en'', wire)] =
     mset [(''en'', wire), (''clk'', wire), (''rst'', wire)]"
    by (simp add: run_def)
  from e w counter_generic_run1 counter_generic_run2 p ms show ?thesis
    by (intro conjI)
qed

end
